theory Spec2Isabelle
  imports Complex_Main
begin

section \<open>Values of the library service\<close>

text \<open>
  A shallow embedding of \<^verbatim>\<open>services/library_service.py\<close>. The module calls two
  collaborators whose code is elsewhere: the \<^verbatim>\<open>database\<close> module and the
  \<^verbatim>\<open>PaymentGateway\<close> class. Both are parameters of every function below, so each
  theorem holds for every behaviour of the collaborators that their interface allows.

  Strings are \<^typ>\<open>string\<close>: lists of the characters with codes 0 to 255, read as the
  code points U+0000 to U+00FF of a Python \<^verbatim>\<open>str\<close>. A \<^verbatim>\<open>datetime\<close> is the number of
  microseconds on the naive time line, the resolution of Python's \<^verbatim>\<open>datetime\<close>, so
  that subtraction of two of them is the \<^verbatim>\<open>timedelta\<close> in microseconds.
\<close>

type_synonym datetime = int

definition microseconds_per_day :: int where
  "microseconds_per_day = 86400000000"

text \<open>\<^verbatim>\<open>timedelta(days=n)\<close>, and the \<^verbatim>\<open>.days\<close> attribute of a \<^verbatim>\<open>timedelta\<close>: Python
  normalises a \<^verbatim>\<open>timedelta\<close> so that its seconds and microseconds are non-negative,
  which makes \<^verbatim>\<open>.days\<close> the floor of the duration in days.\<close>

definition timedelta_of_days :: "int \<Rightarrow> int" where
  "timedelta_of_days n = n * microseconds_per_day"

definition days_of :: "int \<Rightarrow> int" where
  "days_of delta = delta div microseconds_per_day"

text \<open>A row of the \<^verbatim>\<open>books\<close> table as \<^verbatim>\<open>get_book_by_id\<close> returns it (a dict), and an
  entry of \<^verbatim>\<open>get_patron_borrowed_books\<close>.\<close>

record book =
  bk_id :: int
  bk_title :: string
  bk_author :: string
  bk_isbn :: string
  bk_total_copies :: int
  bk_available_copies :: int

record borrowed_book =
  br_book_id :: int
  br_title :: string
  br_author :: string
  br_borrow_date :: datetime
  br_due_date :: datetime
  br_is_overdue :: bool

text \<open>The dict that \<^verbatim>\<open>calculate_late_fee_for_book\<close> returns.\<close>

record fee_info =
  fee_amount :: real
  days_overdue :: int
  status :: string

subsection \<open>The persistence collaborator\<close>

text \<open>
  The functions imported from \<^verbatim>\<open>database\<close>, over a store of type \<^typ>\<open>'s\<close>. A read
  returns its answer; a write returns its success flag and the store it leaves.
\<close>

record 's database =
  get_book_by_id :: "int \<Rightarrow> 's \<Rightarrow> book option"
  get_book_by_isbn :: "string \<Rightarrow> 's \<Rightarrow> book option"
  get_patron_borrow_count :: "string \<Rightarrow> 's \<Rightarrow> int"
  get_patron_borrowed_books :: "string \<Rightarrow> 's \<Rightarrow> borrowed_book list"
  insert_book :: "string \<Rightarrow> string \<Rightarrow> string \<Rightarrow> int \<Rightarrow> int \<Rightarrow> 's \<Rightarrow> bool \<times> 's"
  insert_borrow_record :: "string \<Rightarrow> int \<Rightarrow> datetime \<Rightarrow> datetime \<Rightarrow> 's \<Rightarrow> bool \<times> 's"
  update_borrow_record_return_date :: "string \<Rightarrow> int \<Rightarrow> datetime \<Rightarrow> 's \<Rightarrow> bool \<times> 's"
  update_book_availability :: "int \<Rightarrow> int \<Rightarrow> 's \<Rightarrow> bool \<times> 's"

subsection \<open>A test double for the persistence collaborator\<close>

text \<open>
  The repository's tests replace the database functions by constant functions
  (\<^verbatim>\<open>monkeypatch.setattr(..., lambda *a, **kw: True)\<close>). \<open>stub_database\<close> is that double: every
  read returns the configured answer, every write returns the configured flag, and
  the store is the list of the writes that were called, in order.
\<close>

datatype db_call =
    Insert_book string string string int int
  | Insert_borrow_record string int datetime datetime
  | Update_borrow_record_return_date string int datetime
  | Update_book_availability int int

record stub_answers =
  book_by_id :: "book option"
  book_by_isbn :: "book option"
  borrow_count :: int
  borrowed_books :: "borrowed_book list"
  insert_book_ok :: bool
  insert_borrow_record_ok :: bool
  update_return_date_ok :: bool
  update_availability_ok :: bool

definition stub_database :: "stub_answers \<Rightarrow> (db_call list) database" where
  "stub_database a =
     \<lparr>get_book_by_id = (\<lambda>book_id calls. book_by_id a),
      get_book_by_isbn = (\<lambda>isbn calls. book_by_isbn a),
      get_patron_borrow_count = (\<lambda>patron_id calls. borrow_count a),
      get_patron_borrowed_books = (\<lambda>patron_id calls. borrowed_books a),
      insert_book = (\<lambda>title author isbn total available calls.
        (insert_book_ok a, calls @ [Insert_book title author isbn total available])),
      insert_borrow_record = (\<lambda>patron_id book_id borrow_date due_date calls.
        (insert_borrow_record_ok a,
         calls @ [Insert_borrow_record patron_id book_id borrow_date due_date])),
      update_borrow_record_return_date = (\<lambda>patron_id book_id return_date calls.
        (update_return_date_ok a,
         calls @ [Update_borrow_record_return_date patron_id book_id return_date])),
      update_book_availability = (\<lambda>book_id delta calls.
        (update_availability_ok a, calls @ [Update_book_availability book_id delta]))\<rparr>"

text \<open>The fixtures of the tests: the book with id 4, and one borrow of it that was due
  at time 0.\<close>

definition hunger_games :: book where
  "hunger_games =
     \<lparr>bk_id = 4, bk_title = ''The Hunger Games'', bk_author = ''Suzanne Collins'',
      bk_isbn = ''9780439023528'', bk_total_copies = 3, bk_available_copies = 2\<rparr>"

definition borrow_due_at_0 :: borrowed_book where
  "borrow_due_at_0 =
     \<lparr>br_book_id = 4, br_title = ''The Hunger Games'', br_author = ''Suzanne Collins'',
      br_borrow_date = - 1209600000000, br_due_date = 0, br_is_overdue = True\<rparr>"

definition stub_ok :: stub_answers where
  "stub_ok =
     \<lparr>book_by_id = Some hunger_games, book_by_isbn = None, borrow_count = 1,
      borrowed_books = [borrow_due_at_0], insert_book_ok = True,
      insert_borrow_record_ok = True, update_return_date_ok = True,
      update_availability_ok = True\<rparr>"

section \<open>Formatting numbers\<close>

text \<open>\<^verbatim>\<open>str\<close> of an integer, as an f-string field \<^verbatim>\<open>{days_overdue}\<close> prints it.\<close>

definition digit_char :: "nat \<Rightarrow> char" where
  "digit_char d = ''0123456789'' ! d"

fun str_nat :: "nat \<Rightarrow> string" where
  "str_nat n = (if n < 10 then [digit_char n] else str_nat (n div 10) @ [digit_char (n mod 10)])"

declare str_nat.simps [simp del]

definition str_int :: "int \<Rightarrow> string" where
  "str_int i = (if i < 0 then CHR ''-'' # str_nat (nat (- i)) else str_nat (nat i))"

text \<open>
  The format \<^verbatim>\<open>{x:.2f}\<close> and \<^verbatim>\<open>round(x, 2)\<close>, for \<open>x \<ge> 0\<close>. The fee is a Python float;
  every fee the calculator computes is a multiple of one half below \<open>2\<^sup>5\<^sup>2\<close> (lemma
  \<open>fee_for_days_half\<close>), which a double holds exactly, so the float arithmetic of the
  source is the arithmetic of \<^typ>\<open>real\<close>, and rounding to cents, whatever its tie
  rule, leaves the amount as it is (lemma \<open>round2_half\<close>).
\<close>

definition format_2f :: "real \<Rightarrow> string" where
  "format_2f x =
     (let cents = nat (round (x * 100))
      in str_nat (cents div 100) @ ''.'' @
         [digit_char (cents mod 100 div 10), digit_char (cents mod 10)])"

definition round2 :: "real \<Rightarrow> real" where
  "round2 x = of_int (round (x * 100)) / 100"

section \<open>Fee calculator\<close>

text \<open>The arithmetic of lines 179 to 185: the two tiers, then the cap.\<close>

definition fee_for_days :: "int \<Rightarrow> real" where
  "fee_for_days d =
     (let fee = (if d \<le> 7 then of_int d * 0.50 else (7 * 0.50) + (of_int (d - 7) * 1.00))
      in min fee 15.00)"

text \<open>
  \<^verbatim>\<open>calculate_late_fee_for_book(patron_id, book_id)\<close>. \<open>now\<close> is what \<^verbatim>\<open>datetime.now()\<close>
  returns. \<^verbatim>\<open>next((b for b in borrowed_books if b['book_id'] == book_id), None)\<close> is
  \<^const>\<open>find\<close>: the first entry for the book.
\<close>

definition calculate_late_fee_for_book ::
  "'s database \<Rightarrow> datetime \<Rightarrow> string \<Rightarrow> int \<Rightarrow> 's \<Rightarrow> fee_info" where
  "calculate_late_fee_for_book db now patron_id book_id s =
     (let borrowed_books = get_patron_borrowed_books db patron_id s;
          borrow_record = find (\<lambda>b. br_book_id b = book_id) borrowed_books
      in case borrow_record of
           None \<Rightarrow>
             \<lparr>fee_amount = 0.00, days_overdue = 0, status = ''No active borrow record found''\<rparr>
         | Some r \<Rightarrow>
             (let due_date = br_due_date r;
                  current_date = now
              in if current_date \<le> due_date
                 then \<lparr>fee_amount = 0.00, days_overdue = 0,
                        status = ''No late fees - book not overdue''\<rparr>
                 else
                   (let days = days_of (current_date - due_date);
                        fee = fee_for_days days;
                        status_message =
                          ''Late fee: $'' @ format_2f fee @ '' for '' @ str_int days @
                          '' days overdue'';
                        status_message =
                          (if fee \<ge> 15.00 then status_message @ '' (maximum fee applied)''
                           else status_message)
                    in \<lparr>fee_amount = round2 fee, days_overdue = days,
                          status = status_message\<rparr>)))"

section \<open>Strings\<close>

text \<open>
  \<^verbatim>\<open>str.strip()\<close>, \<^verbatim>\<open>str.isdigit()\<close> and \<^verbatim>\<open>str.startswith(p)\<close>. Among the code points up
  to U+00FF, Python counts as white space the codes 9 to 13 and 28 to 32, the next-line
  character U+0085 and the no-break space U+00A0; and it counts as digits, beside
  \<^verbatim>\<open>0\<close> to \<^verbatim>\<open>9\<close> (codes 48 to 57), the superscripts two, three and one (U+00B2, U+00B3
  and U+00B9). \<^verbatim>\<open>''.isdigit()\<close> is false.
\<close>

definition is_space :: "char \<Rightarrow> bool" where
  "is_space c =
     (let n = (of_char c :: nat)
      in (9 \<le> n \<and> n \<le> 13) \<or> (28 \<le> n \<and> n \<le> 32) \<or> n = 0x85 \<or> n = 0xA0)"

definition strip :: "string \<Rightarrow> string" where
  "strip s = rev (dropWhile is_space (rev (dropWhile is_space s)))"

definition is_digit :: "char \<Rightarrow> bool" where
  "is_digit c =
     (let n = (of_char c :: nat)
      in (48 \<le> n \<and> n \<le> 57) \<or> n = 0xB2 \<or> n = 0xB3 \<or> n = 0xB9)"

definition isdigit :: "string \<Rightarrow> bool" where
  "isdigit s = (s \<noteq> [] \<and> list_all is_digit s)"

definition startswith :: "string \<Rightarrow> string \<Rightarrow> bool" where
  "startswith s p = (take (length p) s = p)"

section \<open>Catalog manager\<close>

text \<open>
  The argument \<^verbatim>\<open>total_copies\<close> is tested with \<^verbatim>\<open>isinstance(total_copies, int)\<close>, so
  the caller may pass a value that is no integer.
\<close>

datatype copies_arg = IntVal int | NotAnInt

definition add_book_to_catalog ::
  "'s database \<Rightarrow> string \<Rightarrow> string \<Rightarrow> string \<Rightarrow> copies_arg \<Rightarrow> 's \<Rightarrow> (bool \<times> string) \<times> 's" where
  "add_book_to_catalog db title author isbn total_copies s =
     (if title = [] \<or> strip title = [] then ((False, ''Title is required.''), s)
      else if length (strip title) > 200
        then ((False, ''Title must be less than 200 characters.''), s)
      else if author = [] \<or> strip author = [] then ((False, ''Author is required.''), s)
      else if length (strip author) > 100
        then ((False, ''Author must be less than 100 characters.''), s)
      else if length isbn \<noteq> 13 then ((False, ''ISBN must be exactly 13 digits.''), s)
      else
        (case total_copies of
           NotAnInt \<Rightarrow> ((False, ''Total copies must be a positive integer.''), s)
         | IntVal n \<Rightarrow>
             if n \<le> 0 then ((False, ''Total copies must be a positive integer.''), s)
             else
               (case get_book_by_isbn db isbn s of
                  Some existing \<Rightarrow> ((False, ''A book with this ISBN already exists.''), s)
                | None \<Rightarrow>
                    (let (success, s') = insert_book db (strip title) (strip author) isbn n n s
                     in if success
                        then ((True, ''Book '' @ [CHR 0x22] @ strip title @ [CHR 0x22] @
                                 '' has been successfully added to the catalog.''), s')
                        else ((False, ''Database error occurred while adding the book.''), s')))))"

section \<open>Borrowing and return coordinators\<close>

text \<open>
  \<^verbatim>\<open>borrow_book_by_patron(patron_id, book_id)\<close>. \<open>now\<close> is \<^verbatim>\<open>datetime.now()\<close> and
  \<open>strftime\<close> is the standard library's \<^verbatim>\<open>due_date.strftime("%Y-%m-%d")\<close>.
\<close>

definition borrow_book_by_patron ::
  "'s database \<Rightarrow> (datetime \<Rightarrow> string) \<Rightarrow> datetime \<Rightarrow> string \<Rightarrow> int \<Rightarrow> 's \<Rightarrow>
     (bool \<times> string) \<times> 's" where
  "borrow_book_by_patron db strftime now patron_id book_id s =
     (if patron_id = [] \<or> \<not> isdigit patron_id \<or> length patron_id \<noteq> 6
        then ((False, ''Invalid patron ID. Must be exactly 6 digits.''), s)
      else
        (case get_book_by_id db book_id s of
           None \<Rightarrow> ((False, ''Book not found.''), s)
         | Some book \<Rightarrow>
             if bk_available_copies book \<le> 0
               then ((False, ''This book is currently not available.''), s)
             else
               (let current_borrowed = get_patron_borrow_count db patron_id s
                in if current_borrowed > 5
                     then ((False, ''You have reached the maximum borrowing limit of 5 books.''), s)
                   else
                     (let borrow_date = now;
                          due_date = borrow_date + timedelta_of_days 14;
                          (borrow_success, s1) =
                            insert_borrow_record db patron_id book_id borrow_date due_date s
                      in if \<not> borrow_success
                           then ((False, ''Database error occurred while creating borrow record.''), s1)
                         else
                           (let (availability_success, s2) =
                                  update_book_availability db book_id (- 1) s1
                            in if \<not> availability_success
                                 then ((False,
                                   ''Database error occurred while updating book availability.''), s2)
                               else ((True, ''Successfully borrowed '' @ [CHR 0x22] @
                                   bk_title book @ [CHR 0x22] @ ''. Due date: '' @
                                   strftime due_date @ ''.''), s2))))))"

text \<open>
  \<^verbatim>\<open>return_book_by_patron(patron_id, book_id)\<close>. Both writes are called before either
  flag is looked at (lines 134 and 135), and line 135 passes the literal 4.
\<close>

definition return_book_by_patron ::
  "'s database \<Rightarrow> datetime \<Rightarrow> string \<Rightarrow> int \<Rightarrow> 's \<Rightarrow> (bool \<times> string) \<times> 's" where
  "return_book_by_patron db now patron_id book_id s =
     (if patron_id = [] \<or> \<not> isdigit patron_id \<or> length patron_id \<noteq> 6
        then ((False, ''INvalid patron ID. Must be exactly 6 digits.''), s)
      else
        (case get_book_by_id db book_id s of
           None \<Rightarrow> ((False, ''Book not found.''), s)
         | Some book \<Rightarrow>
             (let borrowed_books = get_patron_borrowed_books db patron_id s;
                  book_borrowed = list_ex (\<lambda>b. br_book_id b = book_id) borrowed_books
              in if \<not> book_borrowed
                   then ((False, ''No active borrow record found for this book and patron.''), s)
                 else
                   (let return_date = now;
                        (return_success, s1) =
                          update_borrow_record_return_date db patron_id book_id return_date s;
                        (availability_success, s2) = update_book_availability db book_id 4 s1
                    in if return_success \<and> availability_success
                         then ((True, ''Successfully returned '' @ [CHR 0x22] @ bk_title book @
                                 [CHR 0x22] @ ''.''), s2)
                       else ((False, ''Database error occurred during return process.''), s2)))))"

section \<open>Payment orchestrator\<close>

text \<open>
  The payment gateway is the second collaborator. A call of one of its methods either
  returns the tuple of its contract or raises. An exception \<open>e\<close> is described by what
  the handlers of lines 331 and 375 ask of it: whether it is an instance of
  \<^verbatim>\<open>Exception\<close> (\<^verbatim>\<open>KeyboardInterrupt\<close> and \<^verbatim>\<open>SystemExit\<close> are not), and what \<^verbatim>\<open>str(e)\<close>
  does, which returns a text or raises in its turn. A return value that is no tuple of
  the right length fails in the unpacking assignment, which stands inside the \<^verbatim>\<open>try\<close>
  block, with a \<^verbatim>\<open>ValueError\<close> or \<^verbatim>\<open>TypeError\<close>, so it is a case of \<open>Raises\<close> too.

  Each function below calls the gateway at most once, so a gateway is modelled by its
  answer to that call. A function returns its tuple (\<open>Returns\<close>) or lets an exception
  pass to its caller (\<open>Raises\<close>); beside that, it returns the list of the gateway calls
  it made.
\<close>

datatype py_exception =
  Py_exception (is_Exception: bool) (str_of: "py_exception + string")

datatype 'a outcome = Returns 'a | Raises py_exception

record payment_gateway =
  process_payment :: "string \<Rightarrow> real \<Rightarrow> string \<Rightarrow> (bool \<times> string \<times> string) outcome"
  refund_payment :: "string \<Rightarrow> real \<Rightarrow> (bool \<times> string) outcome"

datatype gateway_call =
    Process_payment string real string
  | Refund_payment string real

text \<open>
  \<^verbatim>\<open>pay_late_fees(patron_id, book_id, payment_gateway=None)\<close>. \<open>PaymentGateway\<close> is the
  object that the constructor call of line 315 yields. The test of line 300
  (\<^verbatim>\<open>not fee_info or 'fee_amount' not in fee_info\<close>) has no branch here: every path of
  \<^const>\<open>calculate_late_fee_for_book\<close> returns a dict with the three keys.
\<close>

definition pay_late_fees ::
  "'s database \<Rightarrow> payment_gateway \<Rightarrow> datetime \<Rightarrow> string \<Rightarrow> int \<Rightarrow> payment_gateway option \<Rightarrow> 's \<Rightarrow>
     (bool \<times> string \<times> string option) outcome \<times> gateway_call list" where
  "pay_late_fees db PaymentGateway now patron_id book_id payment_gateway s =
     (if patron_id = [] \<or> \<not> isdigit patron_id \<or> length patron_id \<noteq> 6
        then (Returns (False, ''Invalid patron ID. Must be exactly 6 digits.'', None), [])
      else
        (let info = calculate_late_fee_for_book db now patron_id book_id s;
             fee = fee_amount info
         in if fee \<le> 0 then (Returns (False, ''No late fees to pay for this book.'', None), [])
            else
              (case get_book_by_id db book_id s of
                 None \<Rightarrow> (Returns (False, ''Book not found.'', None), [])
               | Some book \<Rightarrow>
                   (let gateway = (case payment_gateway of None \<Rightarrow> PaymentGateway | Some g \<Rightarrow> g);
                        description = ''Late fees for '' @ [CHR 0x27] @ bk_title book @ [CHR 0x27];
                        calls = [Process_payment patron_id fee description]
                    in case process_payment gateway patron_id fee description of
                         Returns (success, transaction_id, message) \<Rightarrow>
                           if success
                             then (Returns (True, ''Payment successful! '' @ message,
                                     Some transaction_id), calls)
                           else (Returns (False, ''Payment failed: '' @ message, None), calls)
                       | Raises e \<Rightarrow>
                           if is_Exception e
                             then (case str_of e of
                                     Inr text \<Rightarrow>
                                       (Returns (False, ''Payment processing error: '' @ text,
                                          None), calls)
                                   | Inl e' \<Rightarrow> (Raises e', calls))
                           else (Raises e, calls)))))"

text \<open>
  \<^verbatim>\<open>refund_late_fee_payment(transaction_id, amount, payment_gateway=None)\<close>. The amount
  is a float that the source only compares with 0 and 15.00, both exact.
\<close>

definition refund_late_fee_payment ::
  "payment_gateway \<Rightarrow> string \<Rightarrow> real \<Rightarrow> payment_gateway option \<Rightarrow>
     (bool \<times> string) outcome \<times> gateway_call list" where
  "refund_late_fee_payment PaymentGateway transaction_id amount payment_gateway =
     (if transaction_id = [] \<or> \<not> startswith transaction_id ''txn_''
        then (Returns (False, ''Invalid transaction ID.''), [])
      else if amount \<le> 0 then (Returns (False, ''Refund amount must be greater than 0.''), [])
      else if amount > 15.00
        then (Returns (False, ''Refund amount exceeds maximum late fee.''), [])
      else
        (let gateway = (case payment_gateway of None \<Rightarrow> PaymentGateway | Some g \<Rightarrow> g);
             calls = [Refund_payment transaction_id amount]
         in case refund_payment gateway transaction_id amount of
              Returns (success, message) \<Rightarrow>
                if success then (Returns (True, message), calls)
                else (Returns (False, ''Refund failed: '' @ message), calls)
            | Raises e \<Rightarrow>
                if is_Exception e
                  then (case str_of e of
                          Inr text \<Rightarrow>
                            (Returns (False, ''Refund processing error: '' @ text), calls)
                        | Inl e' \<Rightarrow> (Raises e', calls))
                else (Raises e, calls)))"

section \<open>An in-memory database\<close>

text \<open>
  Modelled from the spec: the \<^verbatim>\<open>database\<close> module is not among the source files. The
  spec lists its functions (section 6) and says what they mean: an outstanding borrow
  is a record whose return date is unset, \<^verbatim>\<open>update_book_availability(book_id, delta)\<close>
  adds \<open>delta\<close> to the available copies of the book, \<^verbatim>\<open>is_overdue\<close> is derived from
  the current time and the due date. \<open>memory_database\<close> is that collaborator over two
  lists of rows, with writes that always succeed; it gives the theorems over an
  arbitrary \<^typ>\<open>'s database\<close> a concrete reading in terms of rows.
\<close>

record borrow_row =
  row_patron_id :: string
  row_book_id :: int
  row_borrow_date :: datetime
  row_due_date :: datetime
  row_return_date :: "datetime option"

record library =
  books :: "book list"
  borrow_records :: "borrow_row list"

definition outstanding :: "string \<Rightarrow> borrow_row \<Rightarrow> bool" where
  "outstanding patron_id r = (row_patron_id r = patron_id \<and> row_return_date r = None)"

definition borrowed_entry :: "datetime \<Rightarrow> book list \<Rightarrow> borrow_row \<Rightarrow> borrowed_book list" where
  "borrowed_entry now bs r =
     (case find (\<lambda>b. bk_id b = row_book_id r) bs of
        None \<Rightarrow> []
      | Some b \<Rightarrow>
          [\<lparr>br_book_id = row_book_id r, br_title = bk_title b, br_author = bk_author b,
            br_borrow_date = row_borrow_date r, br_due_date = row_due_date r,
            br_is_overdue = (row_due_date r < now)\<rparr>])"

definition memory_database :: "datetime \<Rightarrow> library database" where
  "memory_database now =
     \<lparr>get_book_by_id = (\<lambda>book_id lib. find (\<lambda>b. bk_id b = book_id) (books lib)),
      get_book_by_isbn = (\<lambda>isbn lib. find (\<lambda>b. bk_isbn b = isbn) (books lib)),
      get_patron_borrow_count = (\<lambda>patron_id lib.
        int (length (filter (outstanding patron_id) (borrow_records lib)))),
      get_patron_borrowed_books = (\<lambda>patron_id lib.
        concat (map (borrowed_entry now (books lib))
          (filter (outstanding patron_id) (borrow_records lib)))),
      insert_book = (\<lambda>title author isbn total available lib.
        (True, lib\<lparr>books := books lib @
           [\<lparr>bk_id = int (length (books lib)) + 1, bk_title = title, bk_author = author,
             bk_isbn = isbn, bk_total_copies = total, bk_available_copies = available\<rparr>]\<rparr>)),
      insert_borrow_record = (\<lambda>patron_id book_id borrow_date due_date lib.
        (True, lib\<lparr>borrow_records := borrow_records lib @
           [\<lparr>row_patron_id = patron_id, row_book_id = book_id, row_borrow_date = borrow_date,
             row_due_date = due_date, row_return_date = None\<rparr>]\<rparr>)),
      update_borrow_record_return_date = (\<lambda>patron_id book_id return_date lib.
        (True, lib\<lparr>borrow_records :=
           map (\<lambda>r. if outstanding patron_id r \<and> row_book_id r = book_id
                     then r\<lparr>row_return_date := Some return_date\<rparr> else r)
             (borrow_records lib)\<rparr>)),
      update_book_availability = (\<lambda>book_id delta lib.
        (True, lib\<lparr>books :=
           map (\<lambda>b. if bk_id b = book_id
                     then b\<lparr>bk_available_copies := bk_available_copies b + delta\<rparr> else b)
             (books lib)\<rparr>))\<rparr>"

text \<open>The library of the end-to-end test: book 4 with two of its three copies on the
  shelf, and patron 123456 holding the third, due at time 0.\<close>

definition one_borrow :: library where
  "one_borrow =
     \<lparr>books = [hunger_games],
      borrow_records =
        [\<lparr>row_patron_id = ''123456'', row_book_id = 4, row_borrow_date = - 1209600000000,
          row_due_date = 0, row_return_date = None\<rparr>]\<rparr>"

section \<open>Fixtures\<close>

text \<open>The gateways of the tests (\<^verbatim>\<open>Mock(spec=PaymentGateway)\<close> with a return value or a
  side effect), a gateway whose calls are interrupted from the keyboard, one whose
  exception has no text to give, a database whose return-date write fails, and a
  stand-in for \<^verbatim>\<open>strftime\<close> that prints the fifteenth day of the time line.\<close>

definition keyboard_interrupt :: py_exception where
  "keyboard_interrupt = Py_exception False (Inr [])"

definition value_error :: py_exception where
  "value_error = Py_exception True (Inr ''text'')"

definition exception_without_text :: py_exception where
  "exception_without_text = Py_exception True (Inl value_error)"

definition approving_gateway :: payment_gateway where
  "approving_gateway =
     \<lparr>process_payment = (\<lambda>patron_id amount description.
        Returns (True, ''txn_abc123'', ''Payment processed successfully'')),
      refund_payment = (\<lambda>transaction_id amount.
        Returns (True, ''Refund processed successfully''))\<rparr>"

definition declining_gateway :: payment_gateway where
  "declining_gateway =
     \<lparr>process_payment = (\<lambda>patron_id amount description.
        Returns (False, [], ''Payment declined'')),
      refund_payment = (\<lambda>transaction_id amount. Returns (False, ''Refund failed''))\<rparr>"

definition raising_gateway :: payment_gateway where
  "raising_gateway =
     \<lparr>process_payment = (\<lambda>patron_id amount description.
        Raises (Py_exception True (Inr ''Network timeout''))),
      refund_payment = (\<lambda>transaction_id amount.
        Raises (Py_exception True (Inr ''Gateway error'')))\<rparr>"

definition interrupted_gateway :: payment_gateway where
  "interrupted_gateway =
     \<lparr>process_payment = (\<lambda>patron_id amount description. Raises keyboard_interrupt),
      refund_payment = (\<lambda>transaction_id amount. Raises keyboard_interrupt)\<rparr>"

definition speechless_gateway :: payment_gateway where
  "speechless_gateway =
     \<lparr>process_payment = (\<lambda>patron_id amount description. Raises exception_without_text),
      refund_payment = (\<lambda>transaction_id amount. Raises exception_without_text)\<rparr>"

definition memory_database_losing_return_date :: "datetime \<Rightarrow> library database" where
  "memory_database_losing_return_date now =
     (memory_database now)
       \<lparr>update_borrow_record_return_date := (\<lambda>patron_id book_id return_date lib. (False, lib))\<rparr>"

definition strftime_day_15 :: "datetime \<Rightarrow> string" where
  "strftime_day_15 d = ''1970-01-15''"

section \<open>Properties of the fee calculator\<close>

subsection \<open>Numbers and their text\<close>

lemma format_2f_15: "format_2f 15 = ''15.00''"
  by (simp add: format_2f_def str_nat.simps digit_char_def)

lemma round2_half: "round2 (of_int k / 2) = of_int k / 2"
proof -
  have "(of_int k / 2 :: real) * 100 = of_int (50 * k)"
    by simp
  then have "round ((of_int k / 2 :: real) * 100) = 50 * k"
    by (simp only: round_of_int)
  then show ?thesis
    by (simp add: round2_def)
qed

lemma fee_for_days_half:
  "fee_for_days d = of_int (if d \<le> 7 then d else if d \<le> 18 then 2 * d - 7 else 30) / 2"
  by (simp add: fee_for_days_def Let_def min_def)

lemma round2_fee_for_days: "round2 (fee_for_days d) = fee_for_days d"
  by (simp only: fee_for_days_half round2_half)

lemma fee_for_days_formula:
  "fee_for_days d = min 15.00 (0.50 * of_int (min d 7) + 1.00 * of_int (max (d - 7) 0))"
  by (simp add: fee_for_days_def Let_def min_def max_def)

lemma fee_for_days_cap: "19 \<le> d \<Longrightarrow> fee_for_days d = 15"
  by (simp add: fee_for_days_def Let_def min_def)

lemma fee_for_days_range: "0 \<le> d \<Longrightarrow> 0 \<le> fee_for_days d \<and> fee_for_days d \<le> 15"
  by (simp add: fee_for_days_def Let_def min_def)

lemma days_of_nonneg: "0 \<le> delta \<Longrightarrow> 0 \<le> days_of delta"
  by (simp add: days_of_def microseconds_per_day_def pos_imp_zdiv_nonneg_iff)

lemma days_of_pos_imp: "1 \<le> days_of delta \<Longrightarrow> 0 < delta"
  unfolding days_of_def microseconds_per_day_def
  by (smt (verit) div_nonpos_pos_le0)

subsection \<open>The three paths of the calculator\<close>

lemma calculate_late_fee_none:
  "find (\<lambda>b. br_book_id b = book_id) (get_patron_borrowed_books db patron_id s) = None \<Longrightarrow>
   calculate_late_fee_for_book db now patron_id book_id s =
     \<lparr>fee_amount = 0, days_overdue = 0, status = ''No active borrow record found''\<rparr>"
  by (simp add: calculate_late_fee_for_book_def)

lemma calculate_late_fee_not_overdue:
  "find (\<lambda>b. br_book_id b = book_id) (get_patron_borrowed_books db patron_id s) = Some r \<Longrightarrow>
   now \<le> br_due_date r \<Longrightarrow>
   calculate_late_fee_for_book db now patron_id book_id s =
     \<lparr>fee_amount = 0, days_overdue = 0, status = ''No late fees - book not overdue''\<rparr>"
  by (simp add: calculate_late_fee_for_book_def)

lemma calculate_late_fee_overdue:
  "find (\<lambda>b. br_book_id b = book_id) (get_patron_borrowed_books db patron_id s) = Some r \<Longrightarrow>
   br_due_date r < now \<Longrightarrow>
   calculate_late_fee_for_book db now patron_id book_id s =
     \<lparr>fee_amount = fee_for_days (days_of (now - br_due_date r)),
      days_overdue = days_of (now - br_due_date r),
      status = ''Late fee: $'' @ format_2f (fee_for_days (days_of (now - br_due_date r))) @
               '' for '' @ str_int (days_of (now - br_due_date r)) @ '' days overdue'' @
               (if fee_for_days (days_of (now - br_due_date r)) \<ge> 15.00
                then '' (maximum fee applied)'' else [])\<rparr>"
  by (simp add: calculate_late_fee_for_book_def Let_def round2_fee_for_days)

lemma stub_find:
  "find (\<lambda>b. br_book_id b = 4)
     (get_patron_borrowed_books (stub_database stub_ok) ''123456'' []) = Some borrow_due_at_0"
  by (simp add: stub_database_def stub_ok_def borrow_due_at_0_def)

subsection \<open>The cap\<close>

text \<open>
  Claim C1, as amended: for the outstanding borrow record that the calculator finds, if
  \<open>days_overdue \<ge> 19\<close> then \<open>fee_amount\<close> is exactly 15.00 and the status string ends
  with the mark \<^verbatim>\<open>(maximum fee applied)\<close>. The tiers give \<open>0.5 \<sqdot> 7 + 1 \<sqdot> (d - 7) = d - 3.5\<close>,
  which reaches 15.00 from day 19 on, not from day 17.
\<close>

theorem late_fee_capped_from_day_19:
  assumes "find (\<lambda>b. br_book_id b = book_id) (get_patron_borrowed_books db patron_id s) = Some r"
    and "19 \<le> days_of (now - br_due_date r)"
  shows "fee_amount (calculate_late_fee_for_book db now patron_id book_id s) = 15.00 \<and>
         days_overdue (calculate_late_fee_for_book db now patron_id book_id s) =
           days_of (now - br_due_date r) \<and>
         status (calculate_late_fee_for_book db now patron_id book_id s) =
           ''Late fee: $15.00 for '' @ str_int (days_of (now - br_due_date r)) @
           '' days overdue (maximum fee applied)''"
proof -
  from assms(2) have "br_due_date r < now"
    using days_of_pos_imp [of "now - br_due_date r"] by simp
  with assms(1) show ?thesis
    by (simp add: calculate_late_fee_overdue fee_for_days_cap [OF assms(2)] format_2f_15)
qed

text \<open>Witness for C1: the borrow due at time 0, looked at 19 days and 5 microseconds
  later.\<close>

theorem late_fee_capped_from_day_19_witness:
  "fee_amount (calculate_late_fee_for_book (stub_database stub_ok) 1641600000005
     ''123456'' 4 []) = 15.00 \<and>
   days_overdue (calculate_late_fee_for_book (stub_database stub_ok) 1641600000005
     ''123456'' 4 []) = 19 \<and>
   status (calculate_late_fee_for_book (stub_database stub_ok) 1641600000005
     ''123456'' 4 []) = ''Late fee: $15.00 for 19 days overdue (maximum fee applied)''"
proof -
  have d: "days_of (1641600000005 - br_due_date borrow_due_at_0) = 19"
    by (simp add: days_of_def microseconds_per_day_def borrow_due_at_0_def)
  have s: "str_int 19 = ''19''"
    by (simp add: str_int_def str_nat.simps digit_char_def)
  from late_fee_capped_from_day_19 [OF stub_find, of 1641600000005]
  show ?thesis
    by (simp add: d s)
qed

text \<open>
  Counterexample to C1 as stated: exactly 17 days after the due date the assessment
  has \<open>days_overdue = 17\<close>, its fee is 13.50 and its status carries no mark of the cap.
\<close>

theorem late_fee_day_17_counterexample:
  "days_overdue (calculate_late_fee_for_book (stub_database stub_ok) 1468800000000
     ''123456'' 4 []) = 17 \<and>
   fee_amount (calculate_late_fee_for_book (stub_database stub_ok) 1468800000000
     ''123456'' 4 []) = 13.50 \<and>
   fee_amount (calculate_late_fee_for_book (stub_database stub_ok) 1468800000000
     ''123456'' 4 []) \<noteq> 15.00 \<and>
   status (calculate_late_fee_for_book (stub_database stub_ok) 1468800000000
     ''123456'' 4 []) = ''Late fee: $13.50 for 17 days overdue''"
proof -
  have d: "days_of (1468800000000 - br_due_date borrow_due_at_0) = 17"
    by (simp add: days_of_def microseconds_per_day_def borrow_due_at_0_def)
  have f: "fee_for_days 17 = 27 / 2"
    by (simp add: fee_for_days_def)
  have s: "str_int 17 = ''17''"
    by (simp add: str_int_def str_nat.simps digit_char_def)
  have m: "format_2f (27 / 2) = ''13.50''"
    by (simp add: format_2f_def str_nat.simps digit_char_def)
  have "br_due_date borrow_due_at_0 < 1468800000000"
    by (simp add: borrow_due_at_0_def)
  from calculate_late_fee_overdue [OF stub_find this] show ?thesis
    by (simp add: d f s m)
qed

subsection \<open>The tiers\<close>

text \<open>
  Claim C3: for the outstanding borrow record that the calculator finds, with
  \<open>d \<ge> 1\<close> the whole number of days between the due date and now (the floor of the
  elapsed time), \<open>fee_amount = min(15.00, 0.50 \<sqdot> min(d, 7) + 1.00 \<sqdot> max(d - 7, 0))\<close>; in
  particular \<open>d = 7\<close> gives 3.50 and \<open>d = 8\<close> gives 4.50.
\<close>

theorem late_fee_tiers:
  assumes "find (\<lambda>b. br_book_id b = book_id) (get_patron_borrowed_books db patron_id s) = Some r"
    and "d = (now - br_due_date r) div 86400000000"
    and "1 \<le> d"
  shows "fee_amount (calculate_late_fee_for_book db now patron_id book_id s) =
           min 15.00 (0.50 * of_int (min d 7) + 1.00 * of_int (max (d - 7) 0)) \<and>
         days_overdue (calculate_late_fee_for_book db now patron_id book_id s) = d \<and>
         (d = 7 \<longrightarrow> fee_amount (calculate_late_fee_for_book db now patron_id book_id s) = 3.50) \<and>
         (d = 8 \<longrightarrow> fee_amount (calculate_late_fee_for_book db now patron_id book_id s) = 4.50)"
proof -
  have d: "d = days_of (now - br_due_date r)"
    using assms(2) by (simp add: days_of_def microseconds_per_day_def)
  with assms(3) have "br_due_date r < now"
    using days_of_pos_imp [of "now - br_due_date r"] by simp
  with assms(1) have out:
    "fee_amount (calculate_late_fee_for_book db now patron_id book_id s) = fee_for_days d"
    "days_overdue (calculate_late_fee_for_book db now patron_id book_id s) = d"
    by (simp_all add: calculate_late_fee_overdue d)
  have "fee_for_days 7 = 3.50" and "fee_for_days 8 = 4.50"
    by (simp_all add: fee_for_days_def)
  with out show ?thesis
    by (auto simp: fee_for_days_formula)
qed

text \<open>Witness for C3: one microsecond after the eighth day has passed the fee is 4.50;
  one microsecond before, the day count is still 7 and the fee 3.50.\<close>

theorem late_fee_tiers_witness:
  "fee_amount (calculate_late_fee_for_book (stub_database stub_ok) 691200000001 ''123456'' 4 []) = 4.50 \<and>
   days_overdue (calculate_late_fee_for_book (stub_database stub_ok) 691200000001 ''123456'' 4 []) = 8 \<and>
   fee_amount (calculate_late_fee_for_book (stub_database stub_ok) 691199999999 ''123456'' 4 []) = 3.50 \<and>
   days_overdue (calculate_late_fee_for_book (stub_database stub_ok) 691199999999 ''123456'' 4 []) = 7"
proof -
  have d8: "(8::int) = (691200000001 - br_due_date borrow_due_at_0) div 86400000000"
    by (simp add: borrow_due_at_0_def)
  have d7: "(7::int) = (691199999999 - br_due_date borrow_due_at_0) div 86400000000"
    by (simp add: borrow_due_at_0_def)
  from late_fee_tiers [OF stub_find d8] late_fee_tiers [OF stub_find d7]
  show ?thesis
    by simp
qed

subsection \<open>The range of the fee\<close>

text \<open>
  Claim C9: every assessment has \<open>fee_amount\<close> in \<open>[0, 15.00]\<close>, and \<open>fee_amount\<close> and
  \<open>days_overdue\<close> are 0 whenever the patron has no outstanding borrow record for the
  book, or the current time is not past the due date of the record found.
\<close>

theorem late_fee_range:
  "0 \<le> fee_amount (calculate_late_fee_for_book db now patron_id book_id s) \<and>
   fee_amount (calculate_late_fee_for_book db now patron_id book_id s) \<le> 15.00 \<and>
   ((\<forall>b \<in> set (get_patron_borrowed_books db patron_id s). br_book_id b \<noteq> book_id) \<longrightarrow>
      fee_amount (calculate_late_fee_for_book db now patron_id book_id s) = 0 \<and>
      days_overdue (calculate_late_fee_for_book db now patron_id book_id s) = 0) \<and>
   (\<forall>r. find (\<lambda>b. br_book_id b = book_id) (get_patron_borrowed_books db patron_id s) = Some r \<and>
        now \<le> br_due_date r \<longrightarrow>
      fee_amount (calculate_late_fee_for_book db now patron_id book_id s) = 0 \<and>
      days_overdue (calculate_late_fee_for_book db now patron_id book_id s) = 0)"
  (is "?lower \<and> ?upper \<and> ?absent \<and> ?early")
proof -
  let ?found = "find (\<lambda>b. br_book_id b = book_id) (get_patron_borrowed_books db patron_id s)"
  have range: "?lower \<and> ?upper"
  proof (cases ?found)
    case None
    then show ?thesis
      by (simp add: calculate_late_fee_none)
  next
    case (Some r)
    show ?thesis
    proof (cases "now \<le> br_due_date r")
      case True
      with Some show ?thesis
        by (simp add: calculate_late_fee_not_overdue)
    next
      case False
      then have "0 \<le> days_of (now - br_due_date r)"
        by (simp add: days_of_nonneg)
      from fee_for_days_range [OF this] Some False show ?thesis
        by (simp add: calculate_late_fee_overdue)
    qed
  qed
  have absent: ?absent
  proof
    assume "\<forall>b \<in> set (get_patron_borrowed_books db patron_id s). br_book_id b \<noteq> book_id"
    then have "?found = None"
      by (simp add: find_None_iff)
    then show "fee_amount (calculate_late_fee_for_book db now patron_id book_id s) = 0 \<and>
      days_overdue (calculate_late_fee_for_book db now patron_id book_id s) = 0"
      by (simp add: calculate_late_fee_none)
  qed
  have early: ?early
    by (auto simp: calculate_late_fee_not_overdue)
  from range absent early show ?thesis
    by blast
qed

text \<open>Witness for C9: the borrow due at time 0 seen 5 microseconds before it is due;
  a book the patron does not hold; and the range at day 19.\<close>

theorem late_fee_range_witness:
  "fee_amount (calculate_late_fee_for_book (stub_database stub_ok) (- 5) ''123456'' 4 []) = 0 \<and>
   days_overdue (calculate_late_fee_for_book (stub_database stub_ok) (- 5) ''123456'' 4 []) = 0 \<and>
   fee_amount (calculate_late_fee_for_book (stub_database stub_ok) 1641600000005 ''123456'' 7 []) = 0 \<and>
   days_overdue (calculate_late_fee_for_book (stub_database stub_ok) 1641600000005 ''123456'' 7 []) = 0 \<and>
   0 \<le> fee_amount (calculate_late_fee_for_book (stub_database stub_ok) 1641600000005 ''123456'' 4 []) \<and>
   fee_amount (calculate_late_fee_for_book (stub_database stub_ok) 1641600000005 ''123456'' 4 []) \<le> 15.00"
proof -
  have early: "- 5 \<le> br_due_date borrow_due_at_0"
    by (simp add: borrow_due_at_0_def)
  have absent: "\<forall>b \<in> set (get_patron_borrowed_books (stub_database stub_ok) ''123456'' []).
      br_book_id b \<noteq> 7"
    by (simp add: stub_database_def stub_ok_def borrow_due_at_0_def)
  from late_fee_range [of "stub_database stub_ok" "- 5" "''123456''" 4 "[]"]
    late_fee_range [of "stub_database stub_ok" 1641600000005 "''123456''" 7 "[]"]
    late_fee_range [of "stub_database stub_ok" 1641600000005 "''123456''" 4 "[]"]
    stub_find early absent
  show ?thesis
    by blast
qed

section \<open>Properties of the catalog manager\<close>

subsection \<open>Strings\<close>

lemma strip_Nil: "strip [] = []"
  by (simp add: strip_def)

lemma strip_blank: "strip ''   '' = []"
  by (simp add: strip_def is_space_def)

lemma strip_no_break_space: "strip [CHR 0xA0] = []"
  by (simp add: strip_def is_space_def)

lemma strip_Dune: "strip ''  Dune '' = ''Dune''"
  by (simp add: strip_def is_space_def)

lemma strip_Herbert: "strip ''Frank Herbert'' = ''Frank Herbert''"
  by (simp add: strip_def is_space_def)

lemma isdigit_123456: "isdigit ''123456''"
  by (simp add: isdigit_def is_digit_def)


lemma isdigit_superscript_two: "isdigit (replicate 6 (CHR 0xB2))"
  by (simp add: isdigit_def is_digit_def numeral_eq_Suc)

lemma isdigit_nonempty: "isdigit p \<Longrightarrow> p \<noteq> []"
  by (simp add: isdigit_def)


subsection \<open>The order of the checks\<close>

text \<open>
  Claim C8, as amended: \<^verbatim>\<open>add_book_to_catalog\<close> checks, in this order, that the title
  stripped of surrounding white space (as \<^verbatim>\<open>str.strip()\<close> strips it) is not empty and has at most 200 characters,
  that the stripped author is not empty and has at most 100 characters, that the isbn
  has exactly 13 characters, that \<^verbatim>\<open>total_copies\<close> is a positive integer, and that the
  isbn is not registered; it returns the reason of the first check that fails and
  writes nothing; when all pass it calls \<^verbatim>\<open>insert_book\<close> with the stripped title and
  author and with \<^verbatim>\<open>total_copies\<close> for both the total and the available copies, and
  succeeds exactly when that write does.
\<close>

theorem add_book_validation_order:
  assumes "r = add_book_to_catalog db title author isbn total_copies s"
  shows
   "(strip title = [] \<longrightarrow> r = ((False, ''Title is required.''), s)) \<and>
    (strip title \<noteq> [] \<and> 200 < length (strip title) \<longrightarrow>
       r = ((False, ''Title must be less than 200 characters.''), s)) \<and>
    (strip title \<noteq> [] \<and> length (strip title) \<le> 200 \<and> strip author = [] \<longrightarrow>
       r = ((False, ''Author is required.''), s)) \<and>
    (strip title \<noteq> [] \<and> length (strip title) \<le> 200 \<and>
     strip author \<noteq> [] \<and> 100 < length (strip author) \<longrightarrow>
       r = ((False, ''Author must be less than 100 characters.''), s)) \<and>
    (strip title \<noteq> [] \<and> length (strip title) \<le> 200 \<and>
     strip author \<noteq> [] \<and> length (strip author) \<le> 100 \<and> length isbn \<noteq> 13 \<longrightarrow>
       r = ((False, ''ISBN must be exactly 13 digits.''), s)) \<and>
    (strip title \<noteq> [] \<and> length (strip title) \<le> 200 \<and>
     strip author \<noteq> [] \<and> length (strip author) \<le> 100 \<and> length isbn = 13 \<and>
     (\<forall>n. total_copies = IntVal n \<longrightarrow> n \<le> 0) \<longrightarrow>
       r = ((False, ''Total copies must be a positive integer.''), s)) \<and>
    (\<forall>n. strip title \<noteq> [] \<and> length (strip title) \<le> 200 \<and>
     strip author \<noteq> [] \<and> length (strip author) \<le> 100 \<and> length isbn = 13 \<and>
     total_copies = IntVal n \<and> 0 < n \<and> get_book_by_isbn db isbn s \<noteq> None \<longrightarrow>
       r = ((False, ''A book with this ISBN already exists.''), s)) \<and>
    (\<forall>n. strip title \<noteq> [] \<and> length (strip title) \<le> 200 \<and>
     strip author \<noteq> [] \<and> length (strip author) \<le> 100 \<and> length isbn = 13 \<and>
     total_copies = IntVal n \<and> 0 < n \<and> get_book_by_isbn db isbn s = None \<longrightarrow>
       fst (fst r) = fst (insert_book db (strip title) (strip author) isbn n n s) \<and>
       snd r = snd (insert_book db (strip title) (strip author) isbn n n s))"
proof -
  have t: "title = [] \<or> strip title = [] \<longleftrightarrow> strip title = []"
    by (auto simp: strip_Nil)
  have a: "author = [] \<or> strip author = [] \<longleftrightarrow> strip author = []"
    by (auto simp: strip_Nil)
  have r: "r =
     (if strip title = [] then ((False, ''Title is required.''), s)
      else if length (strip title) > 200
        then ((False, ''Title must be less than 200 characters.''), s)
      else if strip author = [] then ((False, ''Author is required.''), s)
      else if length (strip author) > 100
        then ((False, ''Author must be less than 100 characters.''), s)
      else if length isbn \<noteq> 13 then ((False, ''ISBN must be exactly 13 digits.''), s)
      else
        (case total_copies of
           NotAnInt \<Rightarrow> ((False, ''Total copies must be a positive integer.''), s)
         | IntVal n \<Rightarrow>
             if n \<le> 0 then ((False, ''Total copies must be a positive integer.''), s)
             else
               (case get_book_by_isbn db isbn s of
                  Some existing \<Rightarrow> ((False, ''A book with this ISBN already exists.''), s)
                | None \<Rightarrow>
                    (let (success, s') = insert_book db (strip title) (strip author) isbn n n s
                     in if success
                        then ((True, ''Book '' @ [CHR 0x22] @ strip title @ [CHR 0x22] @
                                 '' has been successfully added to the catalog.''), s')
                        else ((False, ''Database error occurred while adding the book.''), s')))))"
    unfolding assms add_book_to_catalog_def t a ..
  show ?thesis
    unfolding r
    by (cases total_copies) (auto split: prod.splits)
qed

text \<open>
  Witness for C8: a blank title wins over an empty author, a short isbn and a copy count
  that is no integer; a title that is one no-break space is blank too; and a padded
  title is stored stripped, with both copy counts 2.
\<close>

theorem add_book_validation_order_witness:
  "add_book_to_catalog (stub_database stub_ok) ''   '' [] ''123'' NotAnInt [] =
     ((False, ''Title is required.''), []) \<and>
   add_book_to_catalog (stub_database stub_ok) [CHR 0xA0] ''Frank Herbert'' ''9780441013593''
     (IntVal 2) [] = ((False, ''Title is required.''), []) \<and>
   fst (fst (add_book_to_catalog (stub_database stub_ok) ''  Dune '' ''Frank Herbert''
     ''9780441013593'' (IntVal 2) [])) = True \<and>
   snd (add_book_to_catalog (stub_database stub_ok) ''  Dune '' ''Frank Herbert''
     ''9780441013593'' (IntVal 2) []) =
     [Insert_book ''Dune'' ''Frank Herbert'' ''9780441013593'' 2 2]"
proof -
  have none: "get_book_by_isbn (stub_database stub_ok) ''9780441013593'' [] = None"
    by (simp add: stub_database_def stub_ok_def)
  have ins: "insert_book (stub_database stub_ok) ''Dune'' ''Frank Herbert'' ''9780441013593'' 2 2 [] =
      (True, [Insert_book ''Dune'' ''Frank Herbert'' ''9780441013593'' 2 2])"
    by (simp add: stub_database_def stub_ok_def)
  from add_book_validation_order [OF refl, of "''   ''" "stub_database stub_ok" "[]" "''123''" NotAnInt "[]"]
    add_book_validation_order [OF refl, of "[CHR 0xA0]" "stub_database stub_ok"
      "''Frank Herbert''" "''9780441013593''" "IntVal 2" "[]"]
    add_book_validation_order [OF refl, of "''  Dune ''" "stub_database stub_ok" "''Frank Herbert''"
      "''9780441013593''" "IntVal 2" "[]"]
  show ?thesis
    by (simp add: strip_blank strip_no_break_space strip_Dune strip_Herbert none ins)
qed

text \<open>
  Counterexample to C8 as stated: the title of three spaces is not empty and has at
  most 200 characters, and every other condition of the claim holds, yet the result is
  the failure \<^verbatim>\<open>Title is required.\<close> and no book is written.
\<close>

theorem add_book_blank_title_counterexample:
  "''   '' \<noteq> [] \<and> length ''   '' \<le> 200 \<and>
   ''Frank Herbert'' \<noteq> [] \<and> length ''Frank Herbert'' \<le> 100 \<and>
   length ''9780441013593'' = 13 \<and> (0::int) < 2 \<and>
   get_book_by_isbn (stub_database stub_ok) ''9780441013593'' [] = None \<and>
   add_book_to_catalog (stub_database stub_ok) ''   '' ''Frank Herbert'' ''9780441013593''
     (IntVal 2) [] = ((False, ''Title is required.''), [])"
  by (simp add: add_book_to_catalog_def strip_blank stub_database_def stub_ok_def)

text \<open>
  On the in-memory database, a successful \<^verbatim>\<open>add_book_to_catalog\<close> followed by
  \<^verbatim>\<open>get_book_by_isbn\<close> yields a book whose available copies equal its total copies.
\<close>

lemma find_append_None:
  "find P xs = None \<Longrightarrow> find P (xs @ ys) = find P ys"
  by (induction xs) (auto split: if_splits)

lemma add_book_then_get_book_by_isbn:
  assumes "add_book_to_catalog (memory_database now) title author isbn total_copies lib =
             ((True, msg), lib')"
  shows "\<exists>b n. total_copies = IntVal n \<and>
           get_book_by_isbn (memory_database now) isbn lib' = Some b \<and>
           bk_title b = strip title \<and> bk_author b = strip author \<and>
           bk_total_copies b = n \<and> bk_available_copies b = n"
  using assms
  by (auto simp: add_book_to_catalog_def memory_database_def find_append_None
      split: if_splits copies_arg.splits option.splits)

section \<open>Properties of the borrowing and return coordinators\<close>

subsection \<open>The borrowing limit\<close>

text \<open>
  Claim C4: for a patron id of exactly 6 digits and an existing book with a copy
  available, \<^verbatim>\<open>borrow_book_by_patron\<close> answers with the limit message exactly when the
  patron's outstanding-borrow count is strictly greater than 5; with a count of at most
  5 (so also with exactly 5) the borrow goes ahead, and succeeds when both writes do.
\<close>

theorem borrow_limit_boundary:
  assumes "isdigit patron_id" and "length patron_id = 6"
    and "get_book_by_id db book_id s = Some book"
    and "0 < bk_available_copies book"
  shows "(fst (borrow_book_by_patron db strftime now patron_id book_id s) =
            (False, ''You have reached the maximum borrowing limit of 5 books.'')
          \<longleftrightarrow> 5 < get_patron_borrow_count db patron_id s) \<and>
         (get_patron_borrow_count db patron_id s \<le> 5 \<and>
          fst (insert_borrow_record db patron_id book_id now (now + timedelta_of_days 14) s) \<and>
          fst (update_book_availability db book_id (- 1)
            (snd (insert_borrow_record db patron_id book_id now (now + timedelta_of_days 14) s)))
          \<longrightarrow>
          borrow_book_by_patron db strftime now patron_id book_id s =
            ((True, ''Successfully borrowed '' @ [CHR 0x22] @ bk_title book @ [CHR 0x22] @
                ''. Due date: '' @ strftime (now + timedelta_of_days 14) @ ''.''),
             snd (update_book_availability db book_id (- 1)
               (snd (insert_borrow_record db patron_id book_id now
                  (now + timedelta_of_days 14) s)))))"
  using assms
  by (auto simp: borrow_book_by_patron_def Let_def isdigit_nonempty split: prod.splits)

text \<open>
  Witness for C4: a patron holding 6 books is refused; a patron holding 5 borrows a
  sixth, and the two writes are the borrow record due 14 days later and the
  availability change of \<open>-1\<close>.
\<close>

lemma stub_book:
  "get_book_by_id (stub_database (stub_ok\<lparr>borrow_count := c\<rparr>)) 4 [] = Some hunger_games"
  by (simp add: stub_database_def stub_ok_def)

theorem borrow_limit_boundary_witness:
  "fst (borrow_book_by_patron (stub_database (stub_ok\<lparr>borrow_count := 6\<rparr>)) strftime_day_15 100
      ''123456'' 4 []) =
     (False, ''You have reached the maximum borrowing limit of 5 books.'') \<and>
   borrow_book_by_patron (stub_database (stub_ok\<lparr>borrow_count := 5\<rparr>)) strftime_day_15 100
      ''123456'' 4 [] =
     ((True, ''Successfully borrowed '' @ [CHR 0x22] @ ''The Hunger Games'' @ [CHR 0x22] @
        ''. Due date: 1970-01-15.''),
      [Insert_borrow_record ''123456'' 4 100 1209600000100, Update_book_availability 4 (- 1)])"
proof -
  have len: "length ''123456'' = 6"
    by simp
  have avail: "0 < bk_available_copies hunger_games"
    by (simp add: hunger_games_def)
  from borrow_limit_boundary [OF isdigit_123456 len stub_book avail, of 6 strftime_day_15 100]
    borrow_limit_boundary [OF isdigit_123456 len stub_book avail, of 5 strftime_day_15 100]
  show ?thesis
    by (simp add: stub_database_def stub_ok_def hunger_games_def timedelta_of_days_def
        microseconds_per_day_def strftime_day_15_def)
qed

subsection \<open>The writes of a return\<close>

text \<open>
  Claim C2, where the code departs from the claim: on every successful return the
  return-date write was called with \<open>return_date = now\<close> and succeeded, but the
  availability write was called with the delta 4 of line 135, not with 1; the store
  left is the one that this write leaves.
\<close>

theorem successful_return_writes:
  assumes "fst (fst (return_book_by_patron db now patron_id book_id s))"
  shows "fst (update_borrow_record_return_date db patron_id book_id now s) \<and>
         fst (update_book_availability db book_id 4
           (snd (update_borrow_record_return_date db patron_id book_id now s))) \<and>
         snd (return_book_by_patron db now patron_id book_id s) =
           snd (update_book_availability db book_id 4
             (snd (update_borrow_record_return_date db patron_id book_id now s)))"
  using assms
  by (auto simp: return_book_by_patron_def Let_def split: if_splits option.splits prod.splits)

text \<open>
  Witness for C2 on the in-memory database: patron 123456 returns book 4, of which 2 of
  3 copies were available. The record is closed at time 100 and the book then has 6
  available copies, more than its 3 copies in total.
\<close>

theorem successful_return_writes_witness:
  "fst (return_book_by_patron (memory_database 100) 100 ''123456'' 4 one_borrow) =
     (True, ''Successfully returned '' @ [CHR 0x22] @ ''The Hunger Games'' @ [CHR 0x22] @ ''.'') \<and>
   snd (return_book_by_patron (memory_database 100) 100 ''123456'' 4 one_borrow) =
     \<lparr>books = [hunger_games\<lparr>bk_available_copies := 6\<rparr>],
      borrow_records =
        [\<lparr>row_patron_id = ''123456'', row_book_id = 4, row_borrow_date = - 1209600000000,
          row_due_date = 0, row_return_date = Some 100\<rparr>]\<rparr> \<and>
   bk_total_copies hunger_games = 3"
proof -
  have res: "fst (return_book_by_patron (memory_database 100) 100 ''123456'' 4 one_borrow) =
     (True, ''Successfully returned '' @ [CHR 0x22] @ ''The Hunger Games'' @ [CHR 0x22] @ ''.'')"
    by (simp add: return_book_by_patron_def isdigit_123456 memory_database_def one_borrow_def
        hunger_games_def outstanding_def borrowed_entry_def Let_def)
  then have "fst (fst (return_book_by_patron (memory_database 100) 100 ''123456'' 4 one_borrow))"
    by simp
  from successful_return_writes [OF this] res show ?thesis
    by (simp add: memory_database_def one_borrow_def hunger_games_def outstanding_def)
qed

text \<open>
  Claim C10: in \<^verbatim>\<open>return_book_by_patron\<close> the availability write is called whether
  or not the return-date write succeeded. So when the return-date write fails and the
  availability write succeeds, the function reports the storage error while the store
  it leaves is the one after the availability write.
\<close>

theorem return_not_atomic:
  assumes "isdigit patron_id" and "length patron_id = 6"
    and "get_book_by_id db book_id s = Some book"
    and "list_ex (\<lambda>b. br_book_id b = book_id) (get_patron_borrowed_books db patron_id s)"
    and "update_borrow_record_return_date db patron_id book_id now s = (False, s1)"
    and "update_book_availability db book_id 4 s1 = (True, s2)"
  shows "return_book_by_patron db now patron_id book_id s =
           ((False, ''Database error occurred during return process.''), s2)"
  using assms by (simp add: return_book_by_patron_def Let_def isdigit_nonempty)

text \<open>
  Witness for C10: on a database that loses the return-date write, the return of book 4
  fails with the storage error, the borrow record stays open and the book's available
  copies have changed from 2 to 6.
\<close>

lemma one_borrow_book:
  "get_book_by_id (memory_database_losing_return_date 100) 4 one_borrow = Some hunger_games"
  by (simp add: memory_database_losing_return_date_def memory_database_def one_borrow_def
      hunger_games_def)

theorem return_not_atomic_witness:
  "return_book_by_patron (memory_database_losing_return_date 100) 100 ''123456'' 4 one_borrow =
     ((False, ''Database error occurred during return process.''),
      one_borrow\<lparr>books := [hunger_games\<lparr>bk_available_copies := 6\<rparr>]\<rparr>)"
proof -
  have len: "length ''123456'' = 6"
    by simp
  have held: "list_ex (\<lambda>b. br_book_id b = 4)
      (get_patron_borrowed_books (memory_database_losing_return_date 100) ''123456'' one_borrow)"
    by (simp add: memory_database_losing_return_date_def memory_database_def one_borrow_def
        hunger_games_def outstanding_def borrowed_entry_def)
  have w1: "update_borrow_record_return_date (memory_database_losing_return_date 100)
      ''123456'' 4 100 one_borrow = (False, one_borrow)"
    by (simp add: memory_database_losing_return_date_def)
  have w2: "update_book_availability (memory_database_losing_return_date 100) 4 4 one_borrow =
      (True, one_borrow\<lparr>books := [hunger_games\<lparr>bk_available_copies := 6\<rparr>]\<rparr>)"
    by (simp add: memory_database_losing_return_date_def memory_database_def one_borrow_def
        hunger_games_def)
  from return_not_atomic [OF isdigit_123456 len one_borrow_book held w1 w2]
  show ?thesis .
qed

section \<open>Properties of the payment orchestrator\<close>

subsection \<open>When the gateway is not called\<close>


text \<open>
  Witness for C5: the patron id \<^verbatim>\<open>12A456\<close>; a borrow that is not yet due; and an
  overdue borrow of a book that the database no longer has.
\<close>

lemma fee_at_day_8:
  "fee_amount (calculate_late_fee_for_book (stub_database (stub_ok\<lparr>book_by_id := b\<rparr>))
     691200000001 ''123456'' 4 []) = 9 / 2"
proof -
  have f: "find (\<lambda>b. br_book_id b = 4)
     (get_patron_borrowed_books (stub_database (stub_ok\<lparr>book_by_id := b\<rparr>)) ''123456'' []) =
       Some borrow_due_at_0"
    by (simp add: stub_database_def stub_ok_def borrow_due_at_0_def)
  have due: "br_due_date borrow_due_at_0 < 691200000001"
    by (simp add: borrow_due_at_0_def)
  have d: "days_of (691200000001 - br_due_date borrow_due_at_0) = 8"
    by (simp add: days_of_def microseconds_per_day_def borrow_due_at_0_def)
  show ?thesis
    by (simp add: calculate_late_fee_overdue [OF f due] d fee_for_days_def)
qed

lemma fee_at_day_8_stub_ok:
  "fee_amount (calculate_late_fee_for_book (stub_database stub_ok) 691200000001 ''123456'' 4 []) = 9 / 2"
  using fee_at_day_8 [of "Some hunger_games"] by (simp add: stub_ok_def)


text \<open>
  Claim C6: \<^verbatim>\<open>refund_late_fee_payment\<close> returns a failure and makes no gateway call
  when the transaction id does not start with \<^verbatim>\<open>txn_\<close>, or \<open>amount \<le> 0\<close>, or
  \<open>amount > 15.00\<close>; for a transaction id of that form and \<open>0 < amount \<le> 15.00\<close> it
  calls \<^verbatim>\<open>refund_payment\<close> exactly once, with the id and the amount.
\<close>

theorem refund_gateway_calls:
  "(\<not> startswith transaction_id ''txn_'' \<or> amount \<le> 0 \<or> 15.00 < amount \<longrightarrow>
      snd (refund_late_fee_payment PaymentGateway transaction_id amount payment_gateway) = [] \<and>
      (\<exists>message.
         fst (refund_late_fee_payment PaymentGateway transaction_id amount payment_gateway) =
           Returns (False, message))) \<and>
   (startswith transaction_id ''txn_'' \<and> 0 < amount \<and> amount \<le> 15.00 \<longrightarrow>
      snd (refund_late_fee_payment PaymentGateway transaction_id amount payment_gateway) =
        [Refund_payment transaction_id amount])"
proof (intro conjI impI)
  assume bad: "\<not> startswith transaction_id ''txn_'' \<or> amount \<le> 0 \<or> 15.00 < amount"
  then show "snd (refund_late_fee_payment PaymentGateway transaction_id amount payment_gateway) = []"
    by (auto simp: refund_late_fee_payment_def)
  from bad show "\<exists>message.
      fst (refund_late_fee_payment PaymentGateway transaction_id amount payment_gateway) =
        Returns (False, message)"
    by (auto simp: refund_late_fee_payment_def)
next
  assume ok: "startswith transaction_id ''txn_'' \<and> 0 < amount \<and> amount \<le> 15.00"
  then have "transaction_id \<noteq> []"
    by (auto simp: startswith_def)
  with ok show "snd (refund_late_fee_payment PaymentGateway transaction_id amount payment_gateway) =
        [Refund_payment transaction_id amount]"
    by (simp add: refund_late_fee_payment_def Let_def
        split: outcome.splits prod.splits sum.splits)
qed

text \<open>
  Witness for C6: the inputs of the tests: a malformed id, the amounts 0 and 15.01, and
  the largest amount allowed, 15.00.
\<close>

theorem refund_gateway_calls_witness:
  "snd (refund_late_fee_payment declining_gateway ''invalid_txn'' 5 (Some approving_gateway)) = [] \<and>
   snd (refund_late_fee_payment declining_gateway ''txn_abc123'' 0 (Some approving_gateway)) = [] \<and>
   snd (refund_late_fee_payment declining_gateway ''txn_abc123'' 15.01 (Some approving_gateway)) = [] \<and>
   (\<exists>message. fst (refund_late_fee_payment declining_gateway ''txn_abc123'' 15.01
     (Some approving_gateway)) = Returns (False, message)) \<and>
   snd (refund_late_fee_payment declining_gateway ''txn_abc123'' 15.00 (Some approving_gateway)) =
     [Refund_payment ''txn_abc123'' 15.00]"
proof -
  have bad: "\<not> startswith ''invalid_txn'' ''txn_''"
    by (simp add: startswith_def)
  have good: "startswith ''txn_abc123'' ''txn_''"
    by (simp add: startswith_def)
  from refund_gateway_calls [of "''invalid_txn''" 5 declining_gateway "Some approving_gateway"]
    refund_gateway_calls [of "''txn_abc123''" 0 declining_gateway "Some approving_gateway"]
    refund_gateway_calls [of "''txn_abc123''" "15.01" declining_gateway "Some approving_gateway"]
    refund_gateway_calls [of "''txn_abc123''" "15.00" declining_gateway "Some approving_gateway"]
    bad good
  show ?thesis
    by simp
qed

subsection \<open>What the gateway's answer becomes\<close>

text \<open>
  Claim C7, as amended: when the gateway call returns, or raises an exception that is
  an instance of \<^verbatim>\<open>Exception\<close> and whose \<^verbatim>\<open>str()\<close> returns, \<^verbatim>\<open>pay_late_fees\<close> and
  \<^verbatim>\<open>refund_late_fee_payment\<close> return a result and let no exception pass: a gateway
  success becomes a success result (with the transaction id for a payment; a refund
  result is the pair of the flag and the gateway's message, with no transaction id), a
  decline becomes a failure result with the gateway's reason, and the exception becomes
  a failure result with its text. An exception that is no instance of \<^verbatim>\<open>Exception\<close>
  (\<^verbatim>\<open>KeyboardInterrupt\<close>, \<^verbatim>\<open>SystemExit\<close>) passes to the caller, and so does what
  \<^verbatim>\<open>str()\<close> of the caught exception raises. \<open>gateway\<close> is the injected gateway, or the
  default one when none is injected.
\<close>

theorem gateway_outcomes_become_results:
  assumes "gateway = (case payment_gateway of None \<Rightarrow> PaymentGateway | Some g \<Rightarrow> g)"
    and "answer = process_payment gateway patron_id
           (fee_amount (calculate_late_fee_for_book db now patron_id book_id s))
           (''Late fees for '' @ [CHR 0x27] @ bk_title book @ [CHR 0x27])"
    and "paid = fst (pay_late_fees db PaymentGateway now patron_id book_id payment_gateway s)"
    and "refunded =
           fst (refund_late_fee_payment PaymentGateway transaction_id' amount payment_gateway)"
  shows
   "(isdigit patron_id \<and> length patron_id = 6 \<and>
     0 < fee_amount (calculate_late_fee_for_book db now patron_id book_id s) \<and>
     get_book_by_id db book_id s = Some book \<longrightarrow>
     (\<forall>transaction_id message e text e'.
       (answer = Returns (True, transaction_id, message) \<longrightarrow>
          paid = Returns (True, ''Payment successful! '' @ message, Some transaction_id)) \<and>
       (answer = Returns (False, transaction_id, message) \<longrightarrow>
          paid = Returns (False, ''Payment failed: '' @ message, None)) \<and>
       (answer = Raises e \<and> is_Exception e \<and> str_of e = Inr text \<longrightarrow>
          paid = Returns (False, ''Payment processing error: '' @ text, None)) \<and>
       (answer = Raises e \<and> \<not> is_Exception e \<longrightarrow> paid = Raises e) \<and>
       (answer = Raises e \<and> is_Exception e \<and> str_of e = Inl e' \<longrightarrow> paid = Raises e'))) \<and>
    (startswith transaction_id' ''txn_'' \<and> 0 < amount \<and> amount \<le> 15.00 \<longrightarrow>
     (\<forall>message e text e'.
       (refund_payment gateway transaction_id' amount = Returns (True, message) \<longrightarrow>
          refunded = Returns (True, message)) \<and>
       (refund_payment gateway transaction_id' amount = Returns (False, message) \<longrightarrow>
          refunded = Returns (False, ''Refund failed: '' @ message)) \<and>
       (refund_payment gateway transaction_id' amount = Raises e \<and> is_Exception e \<and>
        str_of e = Inr text \<longrightarrow>
          refunded = Returns (False, ''Refund processing error: '' @ text)) \<and>
       (refund_payment gateway transaction_id' amount = Raises e \<and> \<not> is_Exception e \<longrightarrow>
          refunded = Raises e) \<and>
       (refund_payment gateway transaction_id' amount = Raises e \<and> is_Exception e \<and>
        str_of e = Inl e' \<longrightarrow>
          refunded = Raises e')))"
proof (intro conjI impI)
  assume pre: "isdigit patron_id \<and> length patron_id = 6 \<and>
     0 < fee_amount (calculate_late_fee_for_book db now patron_id book_id s) \<and>
     get_book_by_id db book_id s = Some book"
  then have "patron_id \<noteq> []"
    by (simp add: isdigit_nonempty)
  with pre assms(1) have paid: "paid =
     (case answer of
        Returns (success, transaction_id, message) \<Rightarrow>
          if success
            then Returns (True, ''Payment successful! '' @ message, Some transaction_id)
          else Returns (False, ''Payment failed: '' @ message, None)
      | Raises e \<Rightarrow>
          if is_Exception e
            then (case str_of e of
                    Inr text \<Rightarrow> Returns (False, ''Payment processing error: '' @ text, None)
                  | Inl e' \<Rightarrow> Raises e')
          else Raises e)"
    unfolding assms(2) assms(3)
    by (simp add: pay_late_fees_def Let_def split: outcome.splits prod.splits sum.splits)
  show "\<forall>transaction_id message e text e'.
       (answer = Returns (True, transaction_id, message) \<longrightarrow>
          paid = Returns (True, ''Payment successful! '' @ message, Some transaction_id)) \<and>
       (answer = Returns (False, transaction_id, message) \<longrightarrow>
          paid = Returns (False, ''Payment failed: '' @ message, None)) \<and>
       (answer = Raises e \<and> is_Exception e \<and> str_of e = Inr text \<longrightarrow>
          paid = Returns (False, ''Payment processing error: '' @ text, None)) \<and>
       (answer = Raises e \<and> \<not> is_Exception e \<longrightarrow> paid = Raises e) \<and>
       (answer = Raises e \<and> is_Exception e \<and> str_of e = Inl e' \<longrightarrow> paid = Raises e')"
    unfolding paid by simp
next
  assume pre: "startswith transaction_id' ''txn_'' \<and> 0 < amount \<and> amount \<le> 15.00"
  then have "transaction_id' \<noteq> []"
    by (auto simp: startswith_def)
  with pre assms(1) have refunded: "refunded =
     (case refund_payment gateway transaction_id' amount of
        Returns (success, message) \<Rightarrow>
          if success then Returns (True, message)
          else Returns (False, ''Refund failed: '' @ message)
      | Raises e \<Rightarrow>
          if is_Exception e
            then (case str_of e of
                    Inr text \<Rightarrow> Returns (False, ''Refund processing error: '' @ text)
                  | Inl e' \<Rightarrow> Raises e')
          else Raises e)"
    unfolding assms(4)
    by (simp add: refund_late_fee_payment_def Let_def
        split: outcome.splits prod.splits sum.splits)
  show "\<forall>message e text e'.
       (refund_payment gateway transaction_id' amount = Returns (True, message) \<longrightarrow>
          refunded = Returns (True, message)) \<and>
       (refund_payment gateway transaction_id' amount = Returns (False, message) \<longrightarrow>
          refunded = Returns (False, ''Refund failed: '' @ message)) \<and>
       (refund_payment gateway transaction_id' amount = Raises e \<and> is_Exception e \<and>
        str_of e = Inr text \<longrightarrow>
          refunded = Returns (False, ''Refund processing error: '' @ text)) \<and>
       (refund_payment gateway transaction_id' amount = Raises e \<and> \<not> is_Exception e \<longrightarrow>
          refunded = Raises e) \<and>
       (refund_payment gateway transaction_id' amount = Raises e \<and> is_Exception e \<and>
        str_of e = Inl e' \<longrightarrow>
          refunded = Raises e')"
    unfolding refunded by simp
qed

text \<open>
  Witness for C7: the approving, the declining and the raising gateway of the tests,
  each injected into a payment for a borrow 8 days overdue and into a refund.
\<close>

theorem gateway_outcomes_become_results_witness:
  "fst (pay_late_fees (stub_database stub_ok) declining_gateway 691200000001 ''123456'' 4
     (Some approving_gateway) []) =
     Returns (True, ''Payment successful! Payment processed successfully'', Some ''txn_abc123'') \<and>
   fst (pay_late_fees (stub_database stub_ok) approving_gateway 691200000001 ''123456'' 4
     (Some declining_gateway) []) = Returns (False, ''Payment failed: Payment declined'', None) \<and>
   fst (pay_late_fees (stub_database stub_ok) approving_gateway 691200000001 ''123456'' 4
     (Some raising_gateway) []) =
     Returns (False, ''Payment processing error: Network timeout'', None) \<and>
   fst (refund_late_fee_payment declining_gateway ''txn_abc123'' 5 (Some approving_gateway)) =
     Returns (True, ''Refund processed successfully'') \<and>
   fst (refund_late_fee_payment approving_gateway ''txn_abc123'' 10 (Some declining_gateway)) =
     Returns (False, ''Refund failed: Refund failed'') \<and>
   fst (refund_late_fee_payment approving_gateway ''txn_abc123'' 8.5 (Some raising_gateway)) =
     Returns (False, ''Refund processing error: Gateway error'')"
proof -
  have len: "length ''123456'' = 6"
    by simp
  have good: "startswith ''txn_abc123'' ''txn_''"
    by (simp add: startswith_def)
  have book: "get_book_by_id (stub_database stub_ok) 4 [] = Some hunger_games"
    by (simp add: stub_database_def stub_ok_def)
  have inj: "g = (case Some g of None \<Rightarrow> d | Some g' \<Rightarrow> g')" for g d :: payment_gateway
    by simp
  from gateway_outcomes_become_results [OF inj [of approving_gateway declining_gateway] refl refl refl,
      of "''123456''" "stub_database stub_ok" 691200000001 4 "[]" hunger_games "''txn_abc123''" 5]
    gateway_outcomes_become_results [OF inj [of declining_gateway approving_gateway] refl refl refl,
      of "''123456''" "stub_database stub_ok" 691200000001 4 "[]" hunger_games "''txn_abc123''" 10]
    gateway_outcomes_become_results [OF inj [of raising_gateway approving_gateway] refl refl refl,
      of "''123456''" "stub_database stub_ok" 691200000001 4 "[]" hunger_games "''txn_abc123''" "8.5"]
    isdigit_123456 len good book fee_at_day_8_stub_ok
  show ?thesis
    by (simp add: approving_gateway_def declining_gateway_def raising_gateway_def)
qed

text \<open>
  Counterexample to C7 as stated: a gateway whose call is interrupted from the keyboard.
  \<^verbatim>\<open>KeyboardInterrupt\<close> is no instance of \<^verbatim>\<open>Exception\<close>, so the handlers of lines 331
  and 375 do not catch it, and both functions let it pass to the caller. So does the
  exception that \<^verbatim>\<open>str(e)\<close> raises inside the handler. And a successful refund returns
  the flag and the gateway's message only: no transaction id.
\<close>

theorem gateway_interrupt_counterexample:
  "fst (pay_late_fees (stub_database stub_ok) approving_gateway 691200000001 ''123456'' 4
     (Some interrupted_gateway) []) = Raises keyboard_interrupt \<and>
   fst (refund_late_fee_payment approving_gateway ''txn_abc123'' 5 (Some interrupted_gateway)) =
     Raises keyboard_interrupt \<and>
   fst (pay_late_fees (stub_database stub_ok) approving_gateway 691200000001 ''123456'' 4
     (Some speechless_gateway) []) = Raises value_error \<and>
   fst (refund_late_fee_payment approving_gateway ''txn_abc123'' 5 (Some approving_gateway)) =
     Returns (True, ''Refund processed successfully'')"
proof -
  have book: "get_book_by_id (stub_database stub_ok) 4 [] = Some hunger_games"
    by (simp add: stub_database_def stub_ok_def)
  have pay: "fst (pay_late_fees (stub_database stub_ok) approving_gateway 691200000001
      ''123456'' 4 (Some g) []) =
    (case process_payment g ''123456'' (9 / 2)
        (''Late fees for '' @ [CHR 0x27] @ bk_title hunger_games @ [CHR 0x27]) of
       Returns (success, transaction_id, message) \<Rightarrow>
         if success
           then Returns (True, ''Payment successful! '' @ message, Some transaction_id)
         else Returns (False, ''Payment failed: '' @ message, None)
     | Raises e \<Rightarrow>
         if is_Exception e
           then (case str_of e of
                   Inr text \<Rightarrow> Returns (False, ''Payment processing error: '' @ text, None)
                 | Inl e' \<Rightarrow> Raises e')
         else Raises e)" for g
    by (simp add: pay_late_fees_def isdigit_123456 fee_at_day_8_stub_ok book Let_def
        split: outcome.splits prod.splits sum.splits)
  have interrupted: "fst (pay_late_fees (stub_database stub_ok) approving_gateway
      691200000001 ''123456'' 4 (Some interrupted_gateway) []) = Raises keyboard_interrupt"
    by (simp add: pay interrupted_gateway_def keyboard_interrupt_def)
  have speechless: "fst (pay_late_fees (stub_database stub_ok) approving_gateway
      691200000001 ''123456'' 4 (Some speechless_gateway) []) = Raises value_error"
    by (simp add: pay speechless_gateway_def exception_without_text_def)
  have refunds: "fst (refund_late_fee_payment approving_gateway ''txn_abc123'' 5
      (Some interrupted_gateway)) = Raises keyboard_interrupt"
    "fst (refund_late_fee_payment approving_gateway ''txn_abc123'' 5 (Some approving_gateway)) =
      Returns (True, ''Refund processed successfully'')"
    by (simp_all add: refund_late_fee_payment_def startswith_def interrupted_gateway_def
        approving_gateway_def keyboard_interrupt_def)
  from interrupted speechless refunds show ?thesis
    by simp
qed

end
